theory Spec2Isabelle
  imports Complex_Main "HOL-Library.Word"
begin

unbundle bit_operations_syntax

section \<open>Data model\<close>

text \<open>
  Machine integers of the Go source are words of the same width; \<open>*big.Int\<close> values are
  unbounded integers. \<open>common.Hash\<close> is a 32-byte array and \<open>common.Address\<close> a 20-byte
  array.
\<close>

type_synonym u64 = "64 word"
type_synonym hash = "256 word"
type_synonym address = "160 word"

text \<open>
  \<open>types.Header\<close>, with the fields that \<open>consensus/ethash/consensus.go\<close> reads or writes.
  The Go fields \<open>N\<close>, \<open>P\<close>, \<open>NN\<close>, \<open>PP\<close> are called \<open>hN\<close>, \<open>hP\<close>, \<open>hNN\<close>, \<open>hPP\<close> here.
\<close>

record header =
  ParentHash :: hash
  UncleHash :: hash
  Coinbase :: address
  Root :: hash
  Difficulty :: int
  Number :: int
  GasLimit :: u64
  GasUsed :: u64
  Time :: int
  Extra :: "8 word list"
  Nonce :: u64
  FuzzyHash :: hash
  hN :: u64
  hP :: u64
  hNN :: u64
  hPP :: u64
  Alpha :: int
  NP :: int
  Rewards :: int

section \<open>World state\<close>

text \<open>
  Modelled from the spec: \<open>state.StateDB\<close> (package \<open>core/state\<close>) is not among the source
  files. The spec's state accessor offers \<open>getBalance(addr)\<close> and \<open>addBalance(addr, delta)\<close>.
  The model keeps the balance of every address and, in \<open>journal\<close>, the \<open>AddBalance\<close> calls
  in the order in which they were made.
\<close>

record StateDB =
  balance :: "address \<Rightarrow> int"
  journal :: "(address \<times> int) list"

text \<open>
  Modelled from the spec: \<open>StateDB.AddBalance\<close> is not among the source files either;
  \<open>addBalance(addr, delta)\<close> adds \<open>delta\<close> to the balance of \<open>addr\<close>.
\<close>

definition AddBalance :: "StateDB \<Rightarrow> address \<Rightarrow> int \<Rightarrow> StateDB" where
  "AddBalance st addr amount =
     st\<lparr>balance := (balance st)(addr := balance st addr + amount),
        journal := journal st @ [(addr, amount)]\<rparr>"

section \<open>Reward accumulator\<close>

subsection \<open>Protocol constants\<close>

definition GenBlockReward :: int where
  "GenBlockReward = 450000000000000000"

definition GenBlockUncleReward :: int where
  "GenBlockUncleReward = 50000000000000000"

definition GenBlockEcoReward :: int where
  "GenBlockEcoReward = 1000000000000000"

definition TotalCoin :: int where
  "TotalCoin = 13300000"

definition CDAddress :: "string list" where
  "CDAddress =
    [
     ''0x49ff31917cd16c593d376347f82f7ea67a7ded0d'', ''0x6e2aeaa5d6bbd27656aa8c774005e71d9afc1b23'',
     ''0x80960290c3e717ba425333219e2b4a64c9184422'', ''0xde0e25c523a107fc71a955288e95fc80e74d114b'',
     ''0x6c8df9d21c7087125f448016a2f2afcc14bb8c32'', ''0xc21581f15ffe2da6ac5e2efc04cefd5f6ba8c121'',
     ''0xaf524d5a4aedef7e4ab6580b68f4bbfcd7ed9064'', ''0x8f1eeeade57c518f561169e9e473b6737410106d'',
     ''0x283d14e63bb224923d92c0a3e20d8d0f8554fdc6'', ''0x1edc6edcb4456badbe2f84ea2868439467303f39'',
     ''0x35a93c4ba8ae10156950a9a760a922b990223f7e'', ''0xf7922e6085dbb8f9af7b998647bf52a8a67323ea'',
     ''0xaea94a6c6436c181e976423fca23a2fc58ff0e0e'', ''0xbff99ec8cbf9cd3d27a5a41ab22bf9a1841b658c'',
     ''0x5e4d01a8b2f4f4385a396f0276090ce9ba70fbec'', ''0xf72afb5b6b87516b96440665b0efef3b466f2c8f'',
     ''0xc970baa3fe0f050628803560c4f4763a8cb89641'', ''0x72508937ac5d4ea2dfdce7885480eca36a4a23fa'',
     ''0x9f8136bd79512e809f90ce0c1e451b0d6991aa63'', ''0xa4f36136865312bb5e0d42aed529126f09bb1b02'',
     ''0x3df38e8fbf2bc869afdec75ceeb25cf470b047e1'', ''0xbc88ffcc81bdb180f74a0590e8586d147ed1ed85'',
     ''0x771554d5a2cb453f4ed459b830ed4011fb8ce68a'', ''0x127426bed3724449b9efc1da7058f00498c0338d'',
     ''0x4e1a6355a35466b6cc1b02492795814128a56799'', ''0xd934cdf46a7ac61ce91ebaa92bc20afb68c9b566'',
     ''0xac2bcd2ed9876051d4c64dd899d38f95e68bdce7'', ''0x6f20fddfdbb96b9516dd9b75fc54c75595581cb3'',
     ''0x39136041c26225e97dc55bf897881280258722ea'', ''0x9ab1c0ed107c5e3521ca017f3011cbd6cf856202'',
     ''0x7520afef96fecc57884449b14beca134cbafbed8'', ''0x78b0472be31df30b4c02f83108661f1adc99abd7'',
     ''0xfd5da58f901548cb0e06a0d74c3d3f9dead8831f'', ''0x17c38c7c4258d9bb75165c828ed0394933b87b28'',
     ''0x0a50575359efbad65c4c68f71906d663185138bc'', ''0x59f8c5d60d80dcd06add171a09182f9764e58e6a'',
     ''0x01a24c4e8b82b3c1838d9f4d8b6a8070eeae06b3'', ''0x589ab7907f14d05488c029a362b5f1aeeb9d2d3e'',
     ''0x201a14780fef99e5793b2da30b4cc5d41c3d51e8'', ''0xde4597c58fa29b7642c317c9a6575fcea8c8f32a'',
     ''0x73cd1b163c038629cf57987405dfaf964452024a'', ''0x7ebc3ea0ec38c99d76d13cc618760a28a241910f'',
     ''0xff344df8352209e4a841a95d890695de45dfdfb2'', ''0xbaaa990b7abeb0fc3587dfb446c9f27897daaa07'',
     ''0x1d07362846ab350377de07efa65126671354716b'', ''0x461a2f4ae6d1651a5279d4d551dc457d6ddce9e1'',
     ''0xda1a349c67e15c0cdeaeef1cf54041a37652f86e'', ''0x70a7bafcd8b9bfdd1bad2a1099acdc324eebd816'',
     ''0x4e9ff86bcbfab42d07cc143a8d1775c94010a9bb'', ''0x1cebf431b95076254687a385ccb03aca80c3d543'',
     ''0x0ebd62ba3e7dea2fef3c583cab94ba32271cfad9'', ''0x86a08724ca02071a93401428bd5c37e827db8c1b'',
     ''0x0932388681886fe81dce06fa5b50ecda0af6d22b'', ''0x011ed29043ecfe7176ab06879f9475dab260e3f8'',
     ''0x4e6d3140de836c33828d7cafabbb24b0a0263bc7'', ''0x7cc171a2018dc46a3b22e8905811e31a508cdc5a'',
     ''0x0911306e8e46bf03e862c0ca39e9eb4d9f175527'', ''0x9bb2fcfe40cfe79788d9daf654f9e5e660376880'',
     ''0xfa3959dd6925bdf634a19fcf9fc9a74a852b02f1'', ''0x72165c2c6ef16d8b972567d4e4c45f8cfd2f13c3'',
     ''0x45e1e09ba41644465532b5ed6c439ac6dfe23f59'', ''0x841111d1fe42be7b96e6689e9c94497dc32e3c9d'',
     ''0x353ae2b4bc037d15e4d08ec2fa18907514e019a2'', ''0x19c4b8d1d4a4d20f0b56163c169f60a851f2956c'',
     ''0xc02cb1a2ca0f72a5fc0f9798035bf62c381d8e11'', ''0x020758e61bbb5fa332f2c67f0e031d6fcadd6149'',
     ''0xfffee9d11fb0dd82a57013c74299d604b0bb753e'', ''0x5d1d57a929edf499f0769087827f7b86a67b8183'',
     ''0xb7d9930658124b685bf2bcbd47aea22541c0c5d0'', ''0x99a64c829f5a4c5afbc0a4ea66af2fde060b4ee6'',
     ''0x5054afce04f7e1b8dcbb388542b4eba7e140d9c8'', ''0x1b29d583468302df6431571d38273b970c3617dc'',
     ''0x3dc69c6d5ce802a43ed363628d76beebf50b51f8'', ''0xb9953e7213c9529f01de7bb5088eb6f77cb5605b'',
     ''0xf60b8609a8324fa2f20175091bf57eb81f9c0deb'', ''0xf07303b8a84968fdec7904c9741c2d54a4b40579'',
     ''0x44b8b9105521616e90b19c6f10e0323513bc4fea'', ''0xecbc2130bbf9336c22e5130984e21a0fb56334e8'',
     ''0xed6862dcda5acebab0eda74eacddc6d4f8b40f31'', ''0x80eb5e105f5ffd16c0a3ef0b647e89f1ebeb3e72'',
     ''0xe7c0a7ea3099b868e4cd416bc41cea95929ccdf1'', ''0x5b39ca60ae3a3f74e4dd47049473482cf3145461'',
     ''0x242fdc1c4d04e294c7293790a177b2b2cebf1fef'', ''0x487274989a7e160ffc67a693f79d1fd09c524b92'',
     ''0x870021e24661347469a9b7e13f35c3b4e7e37357'', ''0x4ce7c5fa93f682eb880b8dab8517b1a45e49c662'',
     ''0x225ac4ee12c29db337a0bf7367d2a78291392648'', ''0x54bf50a802423235915f44979c03d68d7ed3a147'',
     ''0xef55b38f55ed2add70ce0d441598e9f8dbb27285'', ''0x094b59b08c7495b4eada733df3a3a095047859d4'',
     ''0x2f639e3629970dca3348628d86d2030726d53ccf'', ''0x1e2beefabfd14cb0bb92f5c3c2515a5616481872'',
     ''0xb81bcc9e4a53bf504df2567afa86633277e9ec98'', ''0x869ee88333c26633c06747bbcee9bfc1fcc29989'',
     ''0xaf758dab0efcd9b390013dbca01f61121c5c7e21'', ''0x2104d5b752ae7d26ed60ed12d2cba63cffcb981e'',
     ''0x45ae3870bdba9d754515ee912f0888b7d6e0a20b'', ''0xeb95f9470258df6a9d50dc644003869cb77dca03'',
     ''0xf588736008ca9084c687993f543435e0e15a2852'', ''0x9a3e8cb939b9ea72f18079d0a3639ce380b2cd31''
    ]"

definition blockFiveYearNumber :: "int list" where
  "blockFiveYearNumber =
     [3153600, 9460800, 22075200, 47304000, 97761600, 198676800, 400507200]"

text \<open>\<open>big.Int.Rsh\<close>: an arithmetic shift to the right.\<close>

definition Rsh :: "int \<Rightarrow> nat \<Rightarrow> int" where
  "Rsh x n = drop_bit n x"

subsection \<open>computerRewardBase\<close>

text \<open>The result is the tuple \<open>(g, t, l, e)\<close> of the source.\<close>

definition computerRewardBase :: "header \<Rightarrow> int \<times> int \<times> int \<times> int" where
  "computerRewardBase header =
     (let totalReward = TotalCoin * 1000000000000000000 in
      if totalReward \<le> Rewards header then (0, 0, 0, 0)
      else
        let Greward = GenBlockReward;
            Treward = GenBlockUncleReward;
            Ereward = GenBlockEcoReward;
            nums = Number header
        in
          if nums \<le> blockFiveYearNumber ! 0
          then (Greward, Treward, 0, Ereward)
          else if nums > blockFiveYearNumber ! 0 \<and> nums \<le> blockFiveYearNumber ! 1
          then (Rsh Greward 1, Rsh Treward 1, 0, Rsh Ereward 1)
          else if nums > blockFiveYearNumber ! 1 \<and> nums \<le> blockFiveYearNumber ! 2
          then (Rsh Greward 2, Rsh Treward 2, 0, Rsh Ereward 2)
          else if nums > blockFiveYearNumber ! 2 \<and> nums \<le> blockFiveYearNumber ! 3
          then (Rsh Greward 3, Rsh Treward 3, 0, Rsh Ereward 3)
          else if nums > blockFiveYearNumber ! 3 \<and> nums \<le> blockFiveYearNumber ! 4
          then (Rsh Greward 4, Rsh Treward 4, 0, Rsh Ereward 4)
          else if nums > blockFiveYearNumber ! 4 \<and> nums \<le> blockFiveYearNumber ! 5
          then (Rsh Greward 5, Rsh Treward 5, 0, Rsh Ereward 5)
          else if nums > blockFiveYearNumber ! 5 \<and> nums \<le> blockFiveYearNumber ! 6
          then (Rsh Greward 6, Rsh Treward 6, 0, Rsh Ereward 6)
          else if nums > blockFiveYearNumber ! 6
          then (Rsh Greward 7, Rsh Treward 7, 0, Rsh Ereward 7)
          else (0, 0, 0, 0))"

subsection \<open>accumulateRewardsGen\<close>

text \<open>
  \<open>common.HexToAddress\<close> is not among the source files; it is the parameter \<open>HexToAddress\<close>.
  The \<open>config\<close> argument of the source is never read and is left out. The function returns
  the state and the header after the call. The two loops carry the state together with the
  running sums \<open>rcount\<close> and \<open>rcd\<close>.
\<close>

definition uncleStep :: "int \<Rightarrow> header \<Rightarrow> StateDB \<times> int \<Rightarrow> StateDB \<times> int" where
  "uncleStep uncleReward uncle acc =
     (AddBalance (fst acc) (Coinbase uncle) uncleReward, snd acc + uncleReward)"

definition ecoStep ::
  "(string \<Rightarrow> address) \<Rightarrow> int \<Rightarrow> string \<Rightarrow> StateDB \<times> int \<Rightarrow> StateDB \<times> int" where
  "ecoStep HexToAddress ecoReward cdaddr acc =
     (AddBalance (fst acc) (HexToAddress cdaddr) ecoReward, snd acc + ecoReward)"

definition accumulateRewardsGen ::
  "(string \<Rightarrow> address) \<Rightarrow> StateDB \<Rightarrow> header \<Rightarrow> header list \<Rightarrow> StateDB \<times> header" where
  "accumulateRewardsGen HexToAddress state header uncles =
     (case computerRewardBase header of (G, T, l, E) \<Rightarrow>
        let uncleReward = T;
            minerReward = G;
            ecoReward = E;
            afterUncles = fold (uncleStep uncleReward) uncles (state, 0);
            rcount = snd afterUncles;
            r = rcount div 6;
            reward = minerReward + r;
            state2 = AddBalance (fst afterUncles) (Coinbase header) reward;
            afterEco = fold (ecoStep HexToAddress ecoReward) CDAddress (state2, 0);
            rcd = snd afterEco;
            r1 = reward + rcd + rcount;
            totalReward = Rewards header
        in (fst afterEco, header\<lparr>Rewards := r1 + totalReward\<rparr>))"

text \<open>
  The epoch index in the words of the spec: \<open>0\<close> up to and including the first boundary, one
  more past each boundary, \<open>7\<close> past the last one.
\<close>

definition epochIndex :: "int \<Rightarrow> nat" where
  "epochIndex number = length (filter (\<lambda>b. b < number) blockFiveYearNumber)"

section \<open>Difficulty engine\<close>

subsection \<open>Constants of package params\<close>

text \<open>
  Package \<open>params\<close> is not among the source files, so the constants that
  \<open>consensus.go\<close> reads from it are the fields of a parameter: \<open>params.N\<close> and \<open>params.P\<close>
  are \<open>params_N\<close> and \<open>params_P\<close>, the others keep their names. The \<open>uint64\<close> constants are
  words, the \<open>*big.Int\<close> constants integers.
\<close>

record params =
  params_N :: u64
  params_P :: u64
  GasLimitBoundDivisor :: u64
  MinGasLimit :: u64
  MaximumExtraDataSize :: u64
  DifficultyBoundDivisor :: int
  MinimumDifficulty :: int
  DurationLimit :: int

text \<open>\<open>big.Int.Uint64\<close>: the low 64 bits of the absolute value.\<close>

definition Uint64 :: "int \<Rightarrow> u64" where
  "Uint64 x = word_of_int \<bar>x\<bar>"

subsection \<open>calcnp and calcnpsea\<close>

definition calcnp :: "params \<Rightarrow> u64 \<Rightarrow> u64 \<Rightarrow> u64 \<Rightarrow> u64 \<times> u64" where
  "calcnp prm timespan n0 p0 =
     (let (n1, p1) =
        (if p0 < 256 then
           (let (n, p) =
              (if timespan < 102 then (n0, p0 + 1)
               else if timespan < 108 then (n0 + 1, p0)
               else if timespan > 138 then
                 (if p0 > params_P prm then (n0, p0 - 1) else (n0, p0))
               else if timespan > 132 then
                 (if n0 > params_N prm then (n0 - 1, p0) else (n0, p0))
               else (n0, p0))
            in if p \<le> params_P prm \<and> n > params_N prm \<and> timespan > 360
               then (n - 1, p) else (n, p))
         else
           (let (n, p) =
              (if timespan < 102 then (n0 + 1, p0)
               else if timespan > 138 then
                 (if n0 > params_N prm then (n0 - 1, p0) else (n0, p0))
               else (n0, p0))
            in if n \<le> params_N prm \<and> p > params_P prm \<and> timespan > 360
               then (n, p - 1) else (n, p)));
          n2 = (if n1 \<le> params_N prm then params_N prm else n1);
          p2 = (if p1 \<le> params_P prm then params_P prm else p1);
          p3 = (if p2 > 256 then 256 else p2)
      in (n2, p3))"

definition calcnpsea :: "params \<Rightarrow> u64 \<Rightarrow> u64 \<Rightarrow> u64 \<Rightarrow> u64 \<times> u64" where
  "calcnpsea prm timespan n0 p0 =
     (let (n1, p1) =
        (if p0 < 256 then
           (let (n, p) =
              (if timespan < 5 then (n0, p0 + 1)
               else if timespan < 7 then (n0 + 1, p0)
               else if timespan > 900 then
                 (if p0 > params_P prm \<and> n0 > params_N prm
                  then (n0 - n0 div 7, p0 - p0 div 7) else (n0, p0))
               else if timespan > 600 then
                 (if p0 > params_P prm \<and> n0 > params_N prm
                  then (n0 - n0 div 10, p0 - p0 div 10) else (n0, p0))
               else if timespan > 16 then
                 (if p0 > params_P prm then (n0, p0 - 1) else (n0, p0))
               else if timespan > 13 then
                 (if n0 > params_N prm then (n0 - 1, p0) else (n0, p0))
               else (n0, p0))
            in if p \<le> params_P prm \<and> n > params_N prm \<and> timespan > 30
               then (n - 1, p) else (n, p))
         else
           (let (n, p) =
              (if timespan < 5 then (n0 + 1, p0)
               else if timespan > 16 then
                 (if n0 > params_N prm then (n0 - 1, p0) else (n0, p0))
               else (n0, p0))
            in if n \<le> params_N prm \<and> p > params_P prm \<and> timespan > 30
               then (n, p - 1) else (n, p)));
          n2 = (if n1 \<le> params_N prm then params_N prm else n1);
          p2 = (if p1 \<le> params_P prm then params_P prm else p1);
          p3 = (if p2 > 256 then 256 else p2)
      in (n2, p3))"

subsection \<open>CalcDifficultyByLake and CalcDifficultyBySea\<close>


definition CalcDifficultyBySea ::
  "params \<Rightarrow> header \<Rightarrow> header \<Rightarrow> u64 \<times> u64 \<times> int \<times> int" where
  "CalcDifficultyBySea prm header parent =
     (let curBlockNumber = Uint64 (Number header);
          curBlockTime = Uint64 (Time header);
          parentBlockTime = Uint64 (Time parent);
          timespan0 = (if curBlockNumber = 1 then 10 else curBlockTime - parentBlockTime);
          timespan = (if curBlockTime < parentBlockTime then 10 else timespan0);
          (n, p) = calcnpsea prm timespan (hN parent) (hP parent);
          curNP = uint (n * n * n * p * p * p * p * p * p - timespan);
          NP0 = (if curBlockNumber < 1 then 0 else NP parent)
      in (n, p, uint timespan, NP0 + curNP))"

definition VerifyDifficultyBygen :: "params \<Rightarrow> header \<Rightarrow> u64 \<times> u64" where
  "VerifyDifficultyBygen prm header = calcnp prm (Uint64 (Alpha header)) (hNN header) (hPP header)"

definition VerifyDifficultyBySea :: "params \<Rightarrow> header \<Rightarrow> u64 \<times> u64" where
  "VerifyDifficultyBySea prm header =
     calcnpsea prm (Uint64 (Alpha header)) (hNN header) (hPP header)"

text \<open>
  The conditions on a header and its parent that \<open>verifyHeader\<close> checks and the difficulty
  regimes rely on: the number is the parent's plus one and the time is past the parent's.
  Numbers and times are not negative.
\<close>

definition validPair :: "header \<Rightarrow> header \<Rightarrow> bool" where
  "validPair parent header =
     (0 \<le> Number parent \<and> Number header = Number parent + 1
      \<and> 0 \<le> Time parent \<and> Time parent < Time header)"

section \<open>Header verifier\<close>

subsection \<open>Errors\<close>

text \<open>
  The error values of \<open>consensus.go\<close>: the errors of package \<open>consensus\<close>, the errors the
  file declares, and the formatted errors of \<open>verifyHeader\<close> with the values they print.
  \<open>ErrMisc\<close> stands for an error of package \<open>misc\<close>, \<open>Panic\<close> for a run-time panic.
\<close>

datatype error =
    ErrUnknownAncestor
  | ErrFutureBlock
  | ErrInvalidNumber
  | errLargeBlockTime
  | errZeroBlockTime
  | errTooManyUncles
  | errDuplicateUncle
  | errUncleIsAncestor
  | errDanglingUncle
  | errInvalidDifficulty
  | errInvalidMixDigest
  | errInvalidPoW
  | ExtraDataTooLong nat u64
  | InvalidDifficulty int int
  | InvalidGasLimitCap u64 u64
  | InvalidGasUsed u64 u64
  | InvalidGasLimit u64 u64 u64
  | ErrMisc string
  | Panic string

subsection \<open>The engine, the chain and the collaborators outside the file\<close>

text \<open>
  Modelled from the spec: the type of \<open>config.PowMode\<close> is declared outside the source
  files; the spec lists the three values \<open>ModeNormal\<close>, \<open>ModeFake\<close> and \<open>ModeFullFake\<close>.
\<close>

datatype Mode = ModeNormal | ModeFake | ModeFullFake

text \<open>
  The fields of \<open>Ethash\<close> that \<open>consensus.go\<close> reads: \<open>config.PowMode\<close>, \<open>fakeFail\<close> and the
  pointer \<open>shared\<close>. \<open>fakeDelay\<close> only delays and is left out.
\<close>

datatype Ethash = Ethash (PowMode: Mode) (fakeFail: u64) (shared: "Ethash option")

text \<open>
  \<open>params.ChainConfig\<close> and \<open>consensus.ChainReader\<close> are interfaces to code outside the
  source files: their methods are the fields of two parameters.
\<close>

record ChainConfig =
  IsHomestead :: "int \<Rightarrow> bool"
  IsByzantium :: "int \<Rightarrow> bool"
  IsSeafork :: "int \<Rightarrow> bool"
  IsEIP158 :: "int \<Rightarrow> bool"

record ChainReader =
  Config :: ChainConfig
  GetHeader :: "hash \<Rightarrow> u64 \<Rightarrow> header option"
  GetHeaderByNumber :: "u64 \<Rightarrow> header option"

type_synonym bytes = "8 word list"

text \<open>
  The other functions and values that \<open>consensus.go\<close> takes from outside the source files:
  the two header hashes, \<open>Hash.Bytes\<close> and \<open>common.BytesToHash\<close>, \<open>genHash\<close> (its first and
  third result) and \<open>compareDiff\<close>, the two validators of package \<open>misc\<close>,
  \<open>types.EmptyUncleHash\<close>, \<open>math.MaxBig256\<close>, and the clock: \<open>now\<close> is
  \<open>time.Now().Unix()\<close> at the call.
\<close>

record env =
  Hash :: "header \<Rightarrow> hash"
  HashNoNonce :: "header \<Rightarrow> hash"
  HashBytes :: "hash \<Rightarrow> bytes"
  BytesToHash :: "bytes \<Rightarrow> hash"
  genHash :: "bytes \<Rightarrow> u64 \<Rightarrow> bytes \<Rightarrow> u64 \<Rightarrow> u64 \<Rightarrow> bytes \<times> bytes"
  compareDiff :: "bytes \<Rightarrow> int \<Rightarrow> bool"
  VerifyDAOHeaderExtraData :: "ChainConfig \<Rightarrow> header \<Rightarrow> error option"
  VerifyForkHashes :: "ChainConfig \<Rightarrow> header \<Rightarrow> bool \<Rightarrow> error option"
  EmptyUncleHash :: hash
  MaxBig256 :: int
  now :: int

subsection \<open>The scalar difficulty\<close>

text \<open>
  \<open>big.Int.Div\<close> is Euclidean division and panics on a zero divisor; \<open>None\<close> is the panic.
\<close>

definition big_Div :: "int \<Rightarrow> int \<Rightarrow> int option" where
  "big_Div x y =
     (if y = 0 then None
      else if 0 < y then Some (x div y)
      else Some (- (x div (- y))))"

definition bomb :: "int \<Rightarrow> int \<Rightarrow> int" where
  "bomb x periodCount = (if periodCount > 1 then x + 2 ^ nat (periodCount - 2) else x)"

definition calcDifficultyByzantium :: "env \<Rightarrow> params \<Rightarrow> u64 \<Rightarrow> header \<Rightarrow> int option" where
  "calcDifficultyByzantium e prm time parent =
     (let bigTime = uint time;
          bigParentTime = Time parent;
          x0 = (bigTime - bigParentTime) div 9;
          x1 = (if UncleHash parent = EmptyUncleHash e then 1 - x0 else 2 - x0);
          x2 = (if x1 < - 99 then - 99 else x1)
      in case big_Div (Difficulty parent) (DifficultyBoundDivisor prm) of
           None \<Rightarrow> None
         | Some y \<Rightarrow>
             (let x3 = Difficulty parent + y * x2;
                  x4 = (if x3 < MinimumDifficulty prm then MinimumDifficulty prm else x3);
                  fakeBlockNumber =
                    (if Number parent \<ge> 2999999 then Number parent - 2999999 else 0);
                  periodCount = fakeBlockNumber div 100000
              in Some (bomb x4 periodCount)))"

definition calcDifficultyHomestead :: "params \<Rightarrow> u64 \<Rightarrow> header \<Rightarrow> int option" where
  "calcDifficultyHomestead prm time parent =
     (let bigTime = uint time;
          bigParentTime = Time parent;
          x0 = 1 - (bigTime - bigParentTime) div 10;
          x1 = (if x0 < - 99 then - 99 else x0)
      in case big_Div (Difficulty parent) (DifficultyBoundDivisor prm) of
           None \<Rightarrow> None
         | Some y \<Rightarrow>
             (let x2 = Difficulty parent + y * x1;
                  x3 = (if x2 < MinimumDifficulty prm then MinimumDifficulty prm else x2);
                  periodCount = (Number parent + 1) div 100000
              in Some (bomb x3 periodCount)))"

definition calcDifficultyFrontier :: "params \<Rightarrow> u64 \<Rightarrow> header \<Rightarrow> int option" where
  "calcDifficultyFrontier prm time parent =
     (case big_Div (Difficulty parent) (DifficultyBoundDivisor prm) of
        None \<Rightarrow> None
      | Some adjust \<Rightarrow>
          (let bigTime = uint time;
               bigParentTime = Time parent;
               diff0 = (if bigTime - bigParentTime < DurationLimit prm
                        then Difficulty parent + adjust else Difficulty parent - adjust);
               diff1 = (if diff0 < MinimumDifficulty prm then MinimumDifficulty prm else diff0);
               periodCount = (Number parent + 1) div 100000
           in if periodCount > 1
              then Some (max (diff1 + 2 ^ nat (periodCount - 2)) (MinimumDifficulty prm))
              else Some diff1))"

definition CalcDifficulty ::
  "env \<Rightarrow> params \<Rightarrow> ChainConfig \<Rightarrow> u64 \<Rightarrow> header \<Rightarrow> int option" where
  "CalcDifficulty e prm config time parent =
     (let next = Number parent + 1 in
      if IsByzantium config next then calcDifficultyByzantium e prm time parent
      else if IsHomestead config next then calcDifficultyHomestead prm time parent
      else calcDifficultyFrontier prm time parent)"

subsection \<open>VerifySeal\<close>

fun VerifySeal :: "env \<Rightarrow> params \<Rightarrow> Ethash \<Rightarrow> ChainReader \<Rightarrow> header \<Rightarrow> error option" where
  "VerifySeal e prm (Ethash mode fail sh) chain header =
     (if mode = ModeFake \<or> mode = ModeFullFake then
        (if fail = Uint64 (Number header) then Some errInvalidPoW else None)
      else
        (case sh of
           Some other \<Rightarrow> VerifySeal e prm other chain header
         | None \<Rightarrow>
             if Difficulty header \<le> 0 then Some errInvalidDifficulty
             else
               (let hash = HashBytes e (HashNoNonce e header);
                    nonce = Nonce header;
                    (fhash, hash256) = genHash e hash nonce hash (hP header) (hN header)
                in if FuzzyHash header \<noteq> BytesToHash e fhash then Some errInvalidMixDigest
                   else if \<not> compareDiff e hash256 (sint (hP header))
                   then Some errInvalidMixDigest
                   else
                     (let (n, p) =
                        (if IsSeafork (Config chain) (Number header)
                         then VerifyDifficultyBySea prm header
                         else VerifyDifficultyBygen prm header)
                      in if hN header \<noteq> n \<or> hP header \<noteq> p then Some errInvalidPoW
                         else None))))"

subsection \<open>verifyHeader\<close>

text \<open>
  \<open>verifyHeader\<close> is a sequence of checks, each of which returns its error at once. The
  model has one function for each of three consecutive blocks of the source: the checks
  before the gas checks (lines 225 to 247), the gas checks (lines 249 to 268) and the checks
  after them (lines 269 to 286); \<open>verifyHeader\<close> returns the first error among them.
\<close>

definition verifyHeader_before ::
  "env \<Rightarrow> params \<Rightarrow> ChainReader \<Rightarrow> header \<Rightarrow> header \<Rightarrow> bool \<Rightarrow> error option" where
  "verifyHeader_before e prm chain header parent uncle =
     (if word_of_nat (length (Extra header)) > MaximumExtraDataSize prm
      then Some (ExtraDataTooLong (length (Extra header)) (MaximumExtraDataSize prm))
      else if uncle \<and> Time header > MaxBig256 e then Some errLargeBlockTime
      else if \<not> uncle \<and> Time header > now e + 12 then Some ErrFutureBlock
      else if Time header \<le> Time parent then Some errZeroBlockTime
      else
        (case CalcDifficulty e prm (Config chain) (Uint64 (Time header)) parent of
           None \<Rightarrow> Some (Panic ''division by zero'')
         | Some expected \<Rightarrow>
             if expected \<noteq> Difficulty header
             then Some (InvalidDifficulty (Difficulty header) expected)
             else None))"

text \<open>
  The difference of the gas limits is taken in \<open>int64\<close>: the conversions keep the bits, the
  subtraction and the negation wrap around, \<open>diff < 0\<close> is a signed comparison, and
  \<open>uint64(diff) >= limit\<close> an unsigned one.
\<close>

definition verifyHeader_gas :: "params \<Rightarrow> header \<Rightarrow> header \<Rightarrow> error option" where
  "verifyHeader_gas prm header parent =
     (let cap = (0x7fffffffffffffff :: u64) in
      if GasLimit header > cap then Some (InvalidGasLimitCap (GasLimit header) cap)
      else if GasUsed header > GasLimit header
      then Some (InvalidGasUsed (GasUsed header) (GasLimit header))
      else
        (let diff0 = GasLimit parent - GasLimit header;
             diff = (if sint diff0 < 0 then diff0 * (- 1) else diff0)
         in if GasLimitBoundDivisor prm = 0 then Some (Panic ''integer divide by zero'')
            else
              (let limit = GasLimit parent div GasLimitBoundDivisor prm
               in if diff \<ge> limit \<or> GasLimit header < MinGasLimit prm
                  then Some (InvalidGasLimit (GasLimit header) (GasLimit parent) limit)
                  else None)))"

text \<open>The two errors of the gas checks that report an invalid gas limit.\<close>

fun isInvalidGasLimit :: "error \<Rightarrow> bool" where
  "isInvalidGasLimit (InvalidGasLimitCap have cap) = True"
| "isInvalidGasLimit (InvalidGasLimit have want limit) = True"
| "isInvalidGasLimit err = False"

definition verifyHeader_after ::
  "env \<Rightarrow> params \<Rightarrow> Ethash \<Rightarrow> ChainReader \<Rightarrow> header \<Rightarrow> header \<Rightarrow> bool \<Rightarrow> bool
     \<Rightarrow> error option" where
  "verifyHeader_after e prm ethash chain header parent uncle seal =
     (if Number header - Number parent \<noteq> 1 then Some ErrInvalidNumber
      else
        (case (if seal then VerifySeal e prm ethash chain header else None) of
           Some err \<Rightarrow> Some err
         | None \<Rightarrow>
             (case VerifyDAOHeaderExtraData e (Config chain) header of
                Some err \<Rightarrow> Some err
              | None \<Rightarrow> VerifyForkHashes e (Config chain) header uncle)))"

definition verifyHeader ::
  "env \<Rightarrow> params \<Rightarrow> Ethash \<Rightarrow> ChainReader \<Rightarrow> header \<Rightarrow> header \<Rightarrow> bool \<Rightarrow> bool
     \<Rightarrow> error option" where
  "verifyHeader e prm ethash chain header parent uncle seal =
     (case verifyHeader_before e prm chain header parent uncle of
        Some err \<Rightarrow> Some err
      | None \<Rightarrow>
          (case verifyHeader_gas prm header parent of
             Some err \<Rightarrow> Some err
           | None \<Rightarrow> verifyHeader_after e prm ethash chain header parent uncle seal))"

subsection \<open>VerifyHeader and the batch path\<close>




section \<open>Matrix utilities\<close>

text \<open>
  The fuzzy dot product of the matrix library. A \<open>float64\<close> is modelled by the real number
  it stands for: \<open>Min\<close>, \<open>Max\<close> and \<open>dotFProduct\<close> only compare their arguments and
  return one of them, so no rounding takes place. \<open>NaN\<close> and the infinities are outside
  the model. Go's \<open>Min\<close> and \<open>Max\<close> are \<open>Min_float\<close> and \<open>Max_float\<close> here.
\<close>

definition Min_float :: "real \<Rightarrow> real \<Rightarrow> real" where
  "Min_float x y = (if x < y then x else y)"

definition Max_float :: "real \<Rightarrow> real \<Rightarrow> real" where
  "Max_float x y = (if x < y then y else x)"

text \<open>
  The loop of \<open>dotFProduct\<close> runs over the indices of \<open>a\<close> and reads \<open>b\<close> at the same
  index; where \<open>b\<close> is shorter than \<open>a\<close> the read is out of range and the program panics,
  which is the result \<open>None\<close>.
\<close>

fun dotFProduct_loop :: "real \<Rightarrow> real list \<Rightarrow> real list \<Rightarrow> real option" where
  "dotFProduct_loop temp [] b = Some temp"
| "dotFProduct_loop temp (x # a) [] = None"
| "dotFProduct_loop temp (x # a) (y # b) =
     dotFProduct_loop (Max_float temp (Min_float x y)) a b"

definition dotFProduct :: "real list \<Rightarrow> real list \<Rightarrow> real option" where
  "dotFProduct a b = dotFProduct_loop 0 a b"

text \<open>
  The fuzzy dot product in the words of the spec: the maximum over all indices of the
  element-wise minima.
\<close>

definition fuzzySup :: "real list \<Rightarrow> real list \<Rightarrow> real" where
  "fuzzySup a b = Max (set (map2 min a b))"

section \<open>Concrete values for worked examples\<close>

text \<open>
  A reading of \<open>0x\<close>-prefixed hexadecimal strings as 20-byte addresses, used where a worked
  example needs a concrete \<open>HexToAddress\<close>.
\<close>

definition hexDigit :: "char \<Rightarrow> nat" where
  "hexDigit c =
     (let v = of_char c :: nat in
      if 48 \<le> v \<and> v \<le> 57 then v - 48
      else if 97 \<le> v \<and> v \<le> 102 then v - 87
      else if 65 \<le> v \<and> v \<le> 70 then v - 55
      else 0)"

definition exampleHexToAddress :: "string \<Rightarrow> address" where
  "exampleHexToAddress s = word_of_nat (foldl (\<lambda>acc c. 16 * acc + hexDigit c) 0 (drop 2 s))"

definition emptyState :: StateDB where
  "emptyState = \<lparr>balance = (\<lambda>a. 0), journal = []\<rparr>"

definition blankHeader :: header where
  "blankHeader =
     \<lparr>ParentHash = 0, UncleHash = 0, Coinbase = 0, Root = 0, Difficulty = 0, Number = 0,
      GasLimit = 0, GasUsed = 0, Time = 0, Extra = [], Nonce = 0, FuzzyHash = 0,
      hN = 0, hP = 0, hNN = 0, hPP = 0, Alpha = 0, NP = 0, Rewards = 0\<rparr>"

text \<open>
  A block of the second epoch with one uncle, a header whose cumulative rewards have reached
  the supply cap, and a header of the last epoch one unit below the cap.
\<close>

definition secondEpochHeader :: header where
  "secondEpochHeader = blankHeader\<lparr>Number := 3153601, Coinbase := 7\<rparr>"

definition oneUncle :: "header list" where
  "oneUncle = [blankHeader\<lparr>Number := 3153600, Coinbase := 9\<rparr>]"

definition cappedHeader :: header where
  "cappedHeader =
     blankHeader\<lparr>Number := 700000000, Coinbase := 7, Rewards := 13300000000000000000000000\<rparr>"

definition nearCapHeader :: header where
  "nearCapHeader =
     blankHeader\<lparr>Number := 700000000, Coinbase := 7, Rewards := 13299999999999999999999999\<rparr>"

text \<open>
  Two sets of constants for worked examples. Both take the gas and scalar-difficulty constants
  of the Ethereum lineage; they differ in the floors \<open>params.N\<close> and \<open>params.P\<close>.
\<close>

definition exampleParams :: params where
  "exampleParams =
     \<lparr>params_N = 2, params_P = 2, GasLimitBoundDivisor = 1024, MinGasLimit = 5000,
      MaximumExtraDataSize = 32, DifficultyBoundDivisor = 2048, MinimumDifficulty = 131072,
      DurationLimit = 13\<rparr>"







definition seaFloorParent :: header where
  "seaFloorParent = blankHeader\<lparr>Number := 99, Time := 5000, hN := 2, hP := 2, NP := 12345\<rparr>"

definition seaFloorHeader :: header where
  "seaFloorHeader = blankHeader\<lparr>Number := 100, Time := 5512\<rparr>"








text \<open>
  Headers for the gas checks: a parent with gas limit \<open>1024000\<close>, for which the bound is
  \<open>1000\<close>; a parent whose gas limit is the largest \<open>uint64\<close>; and a header that has used more
  gas than its limit of \<open>0\<close>.
\<close>

definition gasParent :: header where
  "gasParent = blankHeader\<lparr>GasLimit := 1024000\<rparr>"

definition hugeGasParent :: header where
  "hugeGasParent = blankHeader\<lparr>GasLimit := 0xffffffffffffffff\<rparr>"

definition overusedHeader :: header where
  "overusedHeader = blankHeader\<lparr>GasLimit := 0, GasUsed := 1\<rparr>"

section \<open>Properties of the reward accumulator\<close>

subsection \<open>Auxiliary facts\<close>

lemma computerRewardBase_below_cap:
  assumes "Rewards header < TotalCoin * 10 ^ 18"
  shows "computerRewardBase header =
           (Rsh GenBlockReward (epochIndex (Number header)),
            Rsh GenBlockUncleReward (epochIndex (Number header)),
            0,
            Rsh GenBlockEcoReward (epochIndex (Number header)))"
  using assms
  by (simp add: computerRewardBase_def epochIndex_def blockFiveYearNumber_def Rsh_def
      TotalCoin_def Let_def eval_nat_numeral)

lemma computerRewardBase_at_cap:
  assumes "TotalCoin * 10 ^ 18 \<le> Rewards header"
  shows "computerRewardBase header = (0, 0, 0, 0)"
  using assms by (simp add: computerRewardBase_def)

lemma epochIndex_cases:
  "epochIndex n =
     (if n \<le> 3153600 then 0 else if n \<le> 9460800 then 1 else if n \<le> 22075200 then 2
      else if n \<le> 47304000 then 3 else if n \<le> 97761600 then 4
      else if n \<le> 198676800 then 5 else if n \<le> 400507200 then 6 else 7)"
  by (simp add: epochIndex_def blockFiveYearNumber_def)

lemma fold_uncleStep:
  "fold (uncleStep T) us acc =
     (fold (\<lambda>u s. AddBalance s (Coinbase u) T) us (fst acc), snd acc + int (length us) * T)"
  by (induction us arbitrary: acc) (simp_all add: uncleStep_def algebra_simps)

lemma fold_ecoStep:
  "fold (ecoStep f E) as acc =
     (fold (\<lambda>a s. AddBalance s (f a) E) as (fst acc), snd acc + int (length as) * E)"
  by (induction as arbitrary: acc) (simp_all add: ecoStep_def algebra_simps)

lemma journal_fold_AddBalance:
  "journal (fold (\<lambda>x s. AddBalance s (f x) v) xs st) = journal st @ map (\<lambda>x. (f x, v)) xs"
  by (induction xs arbitrary: st) (simp_all add: AddBalance_def)

lemma balance_fold_AddBalance:
  "balance (fold (\<lambda>x s. AddBalance s (f x) v) xs st) a =
     balance st a + v * int (length (filter (\<lambda>x. f x = a) xs))"
  by (induction xs arbitrary: st) (simp_all add: AddBalance_def algebra_simps)

lemma length_CDAddress: "length CDAddress = 100"
  by (simp add: CDAddress_def)

lemma accumulateRewardsGen_eq:
  assumes "computerRewardBase header = (G, T, l, E)"
  shows "accumulateRewardsGen f state header uncles =
     (fold (\<lambda>a s. AddBalance s (f a) E) CDAddress
        (AddBalance (fold (\<lambda>u s. AddBalance s (Coinbase u) T) uncles state)
           (Coinbase header) (G + (int (length uncles) * T) div 6)),
      header\<lparr>Rewards := Rewards header + (G + (int (length uncles) * T) div 6) + 100 * E
                 + int (length uncles) * T\<rparr>)"
  using assms
  by (simp add: accumulateRewardsGen_def Let_def fold_uncleStep fold_ecoStep length_CDAddress
      algebra_simps)

lemma journal_AddBalance: "journal (AddBalance st a v) = journal st @ [(a, v)]"
  by (simp add: AddBalance_def)

lemma balance_AddBalance:
  "balance (AddBalance st a v) b = (if b = a then balance st a + v else balance st b)"
  by (simp add: AddBalance_def)

lemma Rsh_nonneg: "0 \<le> x \<Longrightarrow> 0 \<le> Rsh x n"
  by (simp add: Rsh_def)

lemma blankHeader_below_cap:
  "Rewards (blankHeader\<lparr>Number := 3153601\<rparr>) < TotalCoin * 10 ^ 18"
  by (simp add: blankHeader_def TotalCoin_def)

lemma Rsh_one_base:
  "Rsh GenBlockReward (Suc 0) = 225000000000000000"
  "Rsh GenBlockUncleReward (Suc 0) = 25000000000000000"
  "Rsh GenBlockEcoReward (Suc 0) = 500000000000000"
  by (simp_all add: Rsh_def GenBlockReward_def GenBlockUncleReward_def GenBlockEcoReward_def
      drop_bit_eq_div)

subsection \<open>The halving schedule\<close>

text \<open>
  Claim C3. While the cumulative rewards of the header are below the supply cap
  \<open>TotalCoin * 10^18\<close>, \<open>computerRewardBase\<close> returns the base rewards
  \<open>G = 4.5 * 10^17\<close>, \<open>T = 5 * 10^16\<close>, \<open>E = 10^15\<close> shifted right by the epoch index
  \<open>k\<close> of the block number, with \<open>l = 0\<close>. The index is \<open>0\<close> up to block \<open>3153600\<close>, grows by
  one past each boundary of \<open>blockFiveYearNumber\<close> and is \<open>7\<close> past the last one. Block
  \<open>3153600\<close> gets the unshifted base rewards; at block \<open>3153601\<close> the miner base reward is
  \<open>2.25 * 10^17\<close>.
\<close>

theorem computerRewardBase_halving:
  assumes "Rewards header < TotalCoin * 10 ^ 18"
  shows "computerRewardBase header =
           (Rsh GenBlockReward (epochIndex (Number header)),
            Rsh GenBlockUncleReward (epochIndex (Number header)),
            0,
            Rsh GenBlockEcoReward (epochIndex (Number header)))
         \<and> epochIndex (Number header) =
             (if Number header \<le> 3153600 then 0 else if Number header \<le> 9460800 then 1
              else if Number header \<le> 22075200 then 2 else if Number header \<le> 47304000 then 3
              else if Number header \<le> 97761600 then 4 else if Number header \<le> 198676800 then 5
              else if Number header \<le> 400507200 then 6 else 7)
         \<and> (Number header = 3153600 \<longrightarrow>
              computerRewardBase header =
                (450000000000000000, 50000000000000000, 0, 1000000000000000))
         \<and> (Number header = 3153601 \<longrightarrow>
              fst (computerRewardBase header) = 225000000000000000)"
proof -
  note base = computerRewardBase_below_cap [OF assms]
  have "Number header = 3153600 \<longrightarrow>
          computerRewardBase header =
            (450000000000000000, 50000000000000000, 0, 1000000000000000)"
    by (simp add: base epochIndex_cases Rsh_def GenBlockReward_def GenBlockUncleReward_def
        GenBlockEcoReward_def)
  moreover have "Number header = 3153601 \<longrightarrow>
          fst (computerRewardBase header) = 225000000000000000"
    by (simp add: base epochIndex_cases Rsh_one_base)
  ultimately show ?thesis
    using base epochIndex_cases by blast
qed

theorem computerRewardBase_halving_witness:
  "Rewards (blankHeader\<lparr>Number := 3153601\<rparr>) < TotalCoin * 10 ^ 18
   \<and> computerRewardBase (blankHeader\<lparr>Number := 3153601\<rparr>) =
       (225000000000000000, 25000000000000000, 0, 500000000000000)"
proof -
  have e: "epochIndex 3153601 = 1"
    by (simp add: epochIndex_cases)
  from computerRewardBase_halving [OF blankHeader_below_cap]
  have "computerRewardBase (blankHeader\<lparr>Number := 3153601\<rparr>) =
           (Rsh GenBlockReward (epochIndex (Number (blankHeader\<lparr>Number := 3153601\<rparr>))),
            Rsh GenBlockUncleReward (epochIndex (Number (blankHeader\<lparr>Number := 3153601\<rparr>))),
            0,
            Rsh GenBlockEcoReward (epochIndex (Number (blankHeader\<lparr>Number := 3153601\<rparr>))))"
    by (rule conjunct1)
  then show ?thesis
    using blankHeader_below_cap by (simp add: e Rsh_one_base)
qed

subsection \<open>The effect of one finalization\<close>

text \<open>
  Claim C2. Let the cumulative rewards of header \<open>h\<close> be below the supply cap and let
  \<open>(G', T', E')\<close> be the miner, uncle and ecosystem rewards of the epoch of \<open>h.number\<close>. Then
  \<open>accumulateRewardsGen\<close> calls \<open>AddBalance\<close> with \<open>T'\<close> for the coinbase of each uncle in
  turn, then with \<open>G' + r\<close> for the coinbase of \<open>h\<close>, where \<open>rcount = |U| * T'\<close> and
  \<open>r = rcount div 6\<close>, then with \<open>E'\<close> for each of the \<open>100\<close> ecosystem addresses in list
  order; every balance grows by exactly these amounts; and the only change to the header is
  \<open>h.rewards := h.rewards + (G' + r) + 100 * E' + rcount\<close>.
\<close>

theorem accumulateRewardsGen_effect:
  assumes "Rewards header < TotalCoin * 10 ^ 18"
  shows "let G' = Rsh GenBlockReward (epochIndex (Number header));
             T' = Rsh GenBlockUncleReward (epochIndex (Number header));
             E' = Rsh GenBlockEcoReward (epochIndex (Number header));
             rcount = int (length uncles) * T';
             r = rcount div 6;
             result = accumulateRewardsGen HexToAddress state header uncles
         in journal (fst result) =
              journal state @ map (\<lambda>u. (Coinbase u, T')) uncles @ [(Coinbase header, G' + r)]
                @ map (\<lambda>a. (HexToAddress a, E')) CDAddress
          \<and> (\<forall>addr. balance (fst result) addr =
                 balance state addr
                 + T' * int (length (filter (\<lambda>u. Coinbase u = addr) uncles))
                 + (if addr = Coinbase header then G' + r else 0)
                 + E' * int (length (filter (\<lambda>a. HexToAddress a = addr) CDAddress)))
          \<and> length CDAddress = 100
          \<and> snd result = header\<lparr>Rewards := Rewards header + (G' + r) + 100 * E' + rcount\<rparr>"
proof -
  define G' where "G' = Rsh GenBlockReward (epochIndex (Number header))"
  define T' where "T' = Rsh GenBlockUncleReward (epochIndex (Number header))"
  define E' where "E' = Rsh GenBlockEcoReward (epochIndex (Number header))"
  have base: "computerRewardBase header = (G', T', 0, E')"
    unfolding G'_def T'_def E'_def by (rule computerRewardBase_below_cap [OF assms])
  note eq = accumulateRewardsGen_eq [OF base, of HexToAddress state uncles]
  have j: "journal (fst (accumulateRewardsGen HexToAddress state header uncles)) =
             journal state @ map (\<lambda>u. (Coinbase u, T')) uncles
               @ [(Coinbase header, G' + (int (length uncles) * T') div 6)]
               @ map (\<lambda>a. (HexToAddress a, E')) CDAddress"
    by (simp add: eq journal_fold_AddBalance journal_AddBalance)
  have b: "balance (fst (accumulateRewardsGen HexToAddress state header uncles)) addr =
             balance state addr
             + T' * int (length (filter (\<lambda>u. Coinbase u = addr) uncles))
             + (if addr = Coinbase header then G' + (int (length uncles) * T') div 6 else 0)
             + E' * int (length (filter (\<lambda>a. HexToAddress a = addr) CDAddress))" for addr
    by (simp add: eq balance_fold_AddBalance balance_AddBalance)
  have h: "snd (accumulateRewardsGen HexToAddress state header uncles) =
             header\<lparr>Rewards := Rewards header + (G' + (int (length uncles) * T') div 6)
                        + 100 * E' + int (length uncles) * T'\<rparr>"
    by (simp add: eq)
  show ?thesis
    unfolding Let_def G'_def [symmetric] T'_def [symmetric] E'_def [symmetric]
    using j b h length_CDAddress by blast
qed

theorem accumulateRewardsGen_effect_witness:
  "Rewards secondEpochHeader < TotalCoin * 10 ^ 18
   \<and> Rewards (snd (accumulateRewardsGen exampleHexToAddress emptyState secondEpochHeader
         oneUncle)) = 304166666666666666
   \<and> take 2 (journal (fst (accumulateRewardsGen exampleHexToAddress emptyState
         secondEpochHeader oneUncle))) = [(9, 25000000000000000), (7, 229166666666666666)]"
proof -
  have h: "Rewards secondEpochHeader < TotalCoin * 10 ^ 18"
    by (simp add: secondEpochHeader_def blankHeader_def TotalCoin_def)
  have e: "epochIndex (Number secondEpochHeader) = Suc 0"
    by (simp add: epochIndex_cases secondEpochHeader_def)
  have u: "length oneUncle = 1" "map Coinbase oneUncle = [9]"
    by (simp_all add: oneUncle_def)
  have c: "Coinbase secondEpochHeader = 7" "Rewards secondEpochHeader = 0"
    by (simp_all add: secondEpochHeader_def blankHeader_def)
  from accumulateRewardsGen_effect [OF h, of oneUncle exampleHexToAddress emptyState]
  have j: "journal (fst (accumulateRewardsGen exampleHexToAddress emptyState secondEpochHeader
             oneUncle)) =
           journal emptyState @ map (\<lambda>u. (Coinbase u, 25000000000000000)) oneUncle
             @ [(7, 229166666666666666)]
             @ map (\<lambda>a. (exampleHexToAddress a, 500000000000000)) CDAddress"
    and r: "snd (accumulateRewardsGen exampleHexToAddress emptyState secondEpochHeader oneUncle)
            = secondEpochHeader\<lparr>Rewards := 304166666666666666\<rparr>"
    by (simp_all add: Let_def e u c Rsh_one_base)
  have je: "journal emptyState = []"
    by (simp add: emptyState_def)
  have mu: "map (\<lambda>u. (Coinbase u, 25000000000000000::int)) oneUncle = [(9, 25000000000000000)]"
    by (simp add: oneUncle_def)
  have "take 2 (journal (fst (accumulateRewardsGen exampleHexToAddress emptyState
          secondEpochHeader oneUncle))) = [(9, 25000000000000000), (7, 229166666666666666)]"
    by (simp add: j je mu)
  then show ?thesis
    using h by (simp add: r)
qed

subsection \<open>At and around the supply cap\<close>

text \<open>
  Claim C10. When the cumulative rewards of the header have reached \<open>TotalCoin * 10^18\<close> at
  entry, \<open>accumulateRewardsGen\<close> leaves the header, and so \<open>h.rewards\<close>, as it was and leaves
  every balance as it was; the \<open>AddBalance\<close> calls it makes, for each uncle, for the miner and
  for each ecosystem address, all carry the amount zero.
\<close>

theorem accumulateRewardsGen_at_cap:
  assumes "TotalCoin * 10 ^ 18 \<le> Rewards header"
  shows "snd (accumulateRewardsGen HexToAddress state header uncles) = header
         \<and> balance (fst (accumulateRewardsGen HexToAddress state header uncles)) = balance state
         \<and> journal (fst (accumulateRewardsGen HexToAddress state header uncles)) =
             journal state @ map (\<lambda>u. (Coinbase u, 0)) uncles @ [(Coinbase header, 0)]
               @ map (\<lambda>a. (HexToAddress a, 0)) CDAddress"
proof -
  note eq = accumulateRewardsGen_eq [OF computerRewardBase_at_cap [OF assms],
      of HexToAddress state uncles]
  have "snd (accumulateRewardsGen HexToAddress state header uncles) = header"
    by (simp add: eq)
  moreover have "balance (fst (accumulateRewardsGen HexToAddress state header uncles)) a
                   = balance state a" for a
    by (simp add: eq balance_fold_AddBalance balance_AddBalance)
  moreover have "journal (fst (accumulateRewardsGen HexToAddress state header uncles)) =
             journal state @ map (\<lambda>u. (Coinbase u, 0)) uncles @ [(Coinbase header, 0)]
               @ map (\<lambda>a. (HexToAddress a, 0)) CDAddress"
    by (simp add: eq journal_fold_AddBalance journal_AddBalance)
  ultimately show ?thesis by blast
qed

theorem accumulateRewardsGen_at_cap_witness:
  "TotalCoin * 10 ^ 18 \<le> Rewards cappedHeader
   \<and> snd (accumulateRewardsGen exampleHexToAddress emptyState cappedHeader oneUncle)
       = cappedHeader
   \<and> map snd (journal (fst (accumulateRewardsGen exampleHexToAddress emptyState cappedHeader
         oneUncle))) = replicate 102 0"
proof -
  have h: "TotalCoin * 10 ^ 18 \<le> Rewards cappedHeader"
    by (simp add: cappedHeader_def TotalCoin_def)
  note w = accumulateRewardsGen_at_cap [OF h, of exampleHexToAddress emptyState oneUncle]
  have je: "journal emptyState = []"
    by (simp add: emptyState_def)
  have "map snd (journal (fst (accumulateRewardsGen exampleHexToAddress emptyState cappedHeader
          oneUncle))) = replicate (length oneUncle) 0 @ [0] @ replicate (length CDAddress) 0"
    by (simp add: w je comp_def map_replicate_const)
  also have "\<dots> = replicate 102 0"
    by (simp add: oneUncle_def length_CDAddress eval_nat_numeral)
  finally show ?thesis
    using h w by simp
qed

text \<open>
  Claim C1, as stated, fails: the cap is tested only on entry, and a block that starts below
  the cap is paid in full. A header of the last epoch that starts one unit below the cap ends
  above it.
\<close>

theorem accumulateRewardsGen_exceeds_cap:
  "\<not> Rewards (snd (accumulateRewardsGen exampleHexToAddress emptyState nearCapHeader []))
       \<le> TotalCoin * 10 ^ 18"
proof -
  have h: "Rewards nearCapHeader < TotalCoin * 10 ^ 18"
    by (simp add: nearCapHeader_def TotalCoin_def)
  have e: "epochIndex (Number nearCapHeader) = 7"
    by (simp add: epochIndex_cases nearCapHeader_def)
  have r: "Rsh GenBlockReward 7 = 3515625000000000" "Rsh GenBlockEcoReward 7 = 7812500000000"
    by (simp_all add: Rsh_def GenBlockReward_def GenBlockEcoReward_def drop_bit_eq_div)
  have v: "Rewards nearCapHeader = 13299999999999999999999999"
    by (simp add: nearCapHeader_def)
  have "Rewards (snd (accumulateRewardsGen exampleHexToAddress emptyState nearCapHeader []))
          = 13299999999999999999999999 + 4296875000000000"
    by (simp add: accumulateRewardsGen_eq [OF computerRewardBase_below_cap [OF h]] e r v)
  then show ?thesis
    by (simp add: TotalCoin_def)
qed

text \<open>
  Claim C1, amended. One call of \<open>accumulateRewardsGen\<close> leaves the cumulative rewards
  unchanged when they have reached the cap at entry, and otherwise they end below the cap
  plus the payout \<open>G' + r + 100 * E' + rcount\<close> of that one block: the cap is exceeded by
  less than the payout of a single block.
\<close>

theorem accumulateRewardsGen_overshoot_bound:
  "Rewards (snd (accumulateRewardsGen HexToAddress state header uncles)) \<le>
     max (Rewards header)
       (TotalCoin * 10 ^ 18 - 1
        + (Rsh GenBlockReward (epochIndex (Number header))
           + (int (length uncles) * Rsh GenBlockUncleReward (epochIndex (Number header))) div 6
           + 100 * Rsh GenBlockEcoReward (epochIndex (Number header))
           + int (length uncles) * Rsh GenBlockUncleReward (epochIndex (Number header))))"
proof (cases "Rewards header < TotalCoin * 10 ^ 18")
  case True
  note eq = accumulateRewardsGen_eq [OF computerRewardBase_below_cap [OF True],
      of HexToAddress state uncles]
  show ?thesis using True by (simp add: eq)
next
  case False
  then have c: "TotalCoin * 10 ^ 18 \<le> Rewards header" by simp
  note eq = accumulateRewardsGen_eq [OF computerRewardBase_at_cap [OF c],
      of HexToAddress state uncles]
  show ?thesis by (simp add: eq)
qed

section \<open>Properties of the difficulty engine\<close>

subsection \<open>Auxiliary facts\<close>






lemma clamp_bounds:
  fixes n1 p1 :: u64
  assumes "params_P prm \<le> 256"
  shows "params_N prm \<le> (if n1 \<le> params_N prm then params_N prm else n1)"
    and "params_P prm \<le>
           (let p2 = (if p1 \<le> params_P prm then params_P prm else p1)
            in if p2 > 256 then 256 else p2)"
    and "(let p2 = (if p1 \<le> params_P prm then params_P prm else p1)
            in if p2 > 256 then 256 else p2) \<le> 256"
  using assms by (auto simp: Let_def)

lemma calcnpsea_1000_2_100:
  assumes "params_N prm < 2" and "params_P prm < 86"
  shows "calcnpsea prm 1000 2 100 = (2, 86)"
proof -
  have a: "params_P prm < 100" using assms(2) by (rule less_trans) simp
  have b: "\<not> 86 \<le> params_P prm" using assms(2) by simp
  have c: "\<not> 2 \<le> params_N prm" using assms(1) by simp
  have d: "(2::u64) - 2 div 7 = 2" "(100::u64) - 100 div 7 = 86"
    by simp_all
  show ?thesis
    unfolding calcnpsea_def
    by (simp add: Let_def a b c d assms)
qed

lemma calcnpsea_1000_2_100_iff:
  "calcnpsea prm 1000 2 100 = (2, 86) \<longleftrightarrow> params_N prm < 2 \<and> params_P prm < 86"
proof
  assume "params_N prm < 2 \<and> params_P prm < 86"
  then show "calcnpsea prm 1000 2 100 = (2, 86)"
    by (simp add: calcnpsea_1000_2_100)
next
  assume r: "calcnpsea prm 1000 2 100 = (2, 86)"
  have d: "(2::u64) - 2 div 7 = 2" "(100::u64) - 100 div 7 = 86" "(2::u64) - 1 = 1"
    by simp_all
  show "params_N prm < 2 \<and> params_P prm < 86"
  proof (rule ccontr)
    assume "\<not> (params_N prm < 2 \<and> params_P prm < 86)"
    then consider "\<not> params_N prm < 2" | "params_N prm < 2" "\<not> params_P prm < 86"
      by blast
    then show False
    proof cases
      case 1
      then have "2 \<le> params_N prm" by simp
      then have "calcnpsea prm 1000 2 100 =
                   (params_N prm, (if 100 \<le> params_P prm then
                      (if params_P prm > 256 then 256 else params_P prm) else 100))"
        unfolding calcnpsea_def by (auto simp: Let_def d)
      with r show False by (auto split: if_splits)
    next
      case 2
      then have "86 \<le> params_P prm" by simp
      show False
      proof (cases "100 > params_P prm")
        case True
        with 2 \<open>86 \<le> params_P prm\<close> have "fst (calcnpsea prm 1000 2 100) \<noteq> 2"
          unfolding calcnpsea_def by (auto simp: Let_def d)
        with r show False by simp
      next
        case False
        then have "100 \<le> params_P prm" by simp
        then have "snd (calcnpsea prm 1000 2 100) \<noteq> 86"
          unfolding calcnpsea_def using 2 by (auto simp: Let_def d)
        with r show False by simp
      qed
    qed
  qed
qed


lemma Sea_zero_contribution:
  "validPair seaFloorParent seaFloorHeader
   \<and> CalcDifficultyBySea exampleParams seaFloorHeader seaFloorParent
       = (2, 2, 512, NP seaFloorParent)"
proof -
  have c: "calcnpsea exampleParams 512 2 2 = (2, 2)"
    by (simp add: calcnpsea_def exampleParams_def)
  have u: "Uint64 (Number seaFloorHeader) = 100" "Uint64 (Time seaFloorHeader) = 5512"
    "Uint64 (Time seaFloorParent) = 5000" "hN seaFloorParent = 2" "hP seaFloorParent = 2"
    by (simp_all add: Uint64_def seaFloorHeader_def seaFloorParent_def)
  have "CalcDifficultyBySea exampleParams seaFloorHeader seaFloorParent
       = (2, 2, 512, NP seaFloorParent)"
    unfolding CalcDifficultyBySea_def Let_def u
    by (simp add: c)
  moreover have "validPair seaFloorParent seaFloorHeader"
    by (simp add: validPair_def seaFloorParent_def seaFloorHeader_def blankHeader_def)
  ultimately show ?thesis by simp
qed

subsection \<open>Floors and ceiling of calcnp\<close>

text \<open>
  Claim C5. For every \<open>timespan\<close> and every \<open>(n, p)\<close> with \<open>n \<ge> params.N\<close> and
  \<open>params.P \<le> p \<le> 256\<close>, \<open>calcnp(timespan, n, p)\<close> returns \<open>(n', p')\<close> with
  \<open>n' \<ge> params.N\<close> and \<open>params.P \<le> p' \<le> 256\<close>, whatever the values of the two constants.
\<close>

theorem calcnp_bounds:
  assumes "params_N prm \<le> n" and "params_P prm \<le> p" and "p \<le> 256"
  shows "params_N prm \<le> fst (calcnp prm timespan n p)
         \<and> params_P prm \<le> snd (calcnp prm timespan n p)
         \<and> snd (calcnp prm timespan n p) \<le> 256"
proof -
  from assms have P: "params_P prm \<le> 256" by simp
  obtain n1 p1 where
    eq: "calcnp prm timespan n p =
           ((if n1 \<le> params_N prm then params_N prm else n1),
            (let p2 = (if p1 \<le> params_P prm then params_P prm else p1)
             in if p2 > 256 then 256 else p2))"
    unfolding calcnp_def Let_def by (simp add: case_prod_beta)
  show ?thesis
    unfolding eq fst_conv snd_conv using clamp_bounds [OF P] by blast
qed

theorem calcnp_bounds_witness:
  "params_N exampleParams \<le> 2 \<and> params_P exampleParams \<le> 3 \<and> (3::u64) \<le> 256
   \<and> calcnp exampleParams 200 2 3 = (2, 2)
   \<and> params_N exampleParams \<le> fst (calcnp exampleParams 200 2 3)
   \<and> params_P exampleParams \<le> snd (calcnp exampleParams 200 2 3)
   \<and> snd (calcnp exampleParams 200 2 3) \<le> 256"
proof -
  have h: "params_N exampleParams \<le> 2" "params_P exampleParams \<le> 3" "(3::u64) \<le> 256"
    by (simp_all add: exampleParams_def)
  have "calcnp exampleParams 200 2 3 = (2, 2)"
    by (simp add: calcnp_def exampleParams_def)
  then show ?thesis
    using h calcnp_bounds [OF h, of 200] by simp
qed

subsection \<open>The Sea scenario\<close>




subsection \<open>The cumulative difficulty NP\<close>




section \<open>Properties of the header verifier\<close>

subsection \<open>Auxiliary facts\<close>

lemma sint_small:
  fixes x :: u64
  assumes "uint x < 2 ^ 63"
  shows "sint x = uint x"
proof -
  have "sint x = signed_take_bit 63 (uint x)"
    by (simp add: sint_uint)
  also have "\<dots> = uint x"
  proof (rule signed_take_bit_int_eq_self)
    have "- (2 ^ 63) \<le> (0::int)" by simp
    also have "(0::int) \<le> uint x" by simp
    finally show "- (2 ^ 63) \<le> uint x" .
    show "uint x < 2 ^ 63" by (rule assms)
  qed
  finally show ?thesis .
qed

lemma sint_sub_small:
  fixes x y :: u64
  assumes "uint x < 2 ^ 63" and "uint y < 2 ^ 63"
  shows "sint (x - y) = uint x - uint y"
proof -
  have "sint (x - y) = signed_take_bit 63 (sint x - sint y)"
    by (simp add: sint_word_ariths)
  also have "\<dots> = signed_take_bit 63 (uint x - uint y)"
    using assms by (simp add: sint_small)
  also have "\<dots> = uint x - uint y"
  proof (rule signed_take_bit_int_eq_self)
    have a: "uint x < 9223372036854775808" "uint y < 9223372036854775808"
      using assms by simp_all
    have b: "0 \<le> uint x" "0 \<le> uint y"
      by simp_all
    have "- 9223372036854775808 \<le> uint x - uint y" "uint x - uint y < 9223372036854775808"
      using a b by linarith+
    then show "- (2 ^ 63) \<le> uint x - uint y" "uint x - uint y < 2 ^ 63"
      by simp_all
  qed
  finally show ?thesis .
qed

lemma abs_diff_int64:
  fixes x y :: u64
  assumes "uint x < 2 ^ 63" and "uint y < 2 ^ 63"
  shows "uint (if sint (x - y) < 0 then (x - y) * (- 1) else x - y) = \<bar>uint x - uint y\<bar>"
proof (cases "sint (x - y) < 0")
  case True
  then have lt: "uint x < uint y"
    using assms by (simp add: sint_sub_small)
  have "(x - y) * (- 1) = y - x" by simp
  moreover have "uint (y - x) = uint y - uint x"
    using lt uint_sub_lem [of x y] by simp
  ultimately show ?thesis
    using True lt by simp
next
  case False
  then have ge: "uint y \<le> uint x"
    using assms by (simp add: sint_sub_small)
  then have "uint (x - y) = uint x - uint y"
    using uint_sub_lem [of y x] by simp
  then show ?thesis
    using False ge by simp
qed

lemma cap_iff:
  fixes g :: u64
  shows "g > 0x7fffffffffffffff \<longleftrightarrow> \<not> uint g < 2 ^ 63"
  by (auto simp: word_less_def not_less)

lemma verifyHeader_gas_cases:
  assumes "GasLimitBoundDivisor prm \<noteq> 0"
    and "GasLimit parent \<le> 0x7fffffffffffffff"
    and "GasUsed header \<le> GasLimit header"
  shows "(case verifyHeader_gas prm header parent of
            None \<Rightarrow>
              \<bar>uint (GasLimit header) - uint (GasLimit parent)\<bar>
                 < uint (GasLimit parent) div uint (GasLimitBoundDivisor prm)
              \<and> MinGasLimit prm \<le> GasLimit header
              \<and> uint (GasLimit header) < 2 ^ 63
          | Some err \<Rightarrow>
              isInvalidGasLimit err
              \<and> \<not> (\<bar>uint (GasLimit header) - uint (GasLimit parent)\<bar>
                     < uint (GasLimit parent) div uint (GasLimitBoundDivisor prm)
                   \<and> MinGasLimit prm \<le> GasLimit header
                   \<and> uint (GasLimit header) < 2 ^ 63))"
proof (cases "GasLimit header > 0x7fffffffffffffff")
  case True
  then have "\<not> uint (GasLimit header) < 2 ^ 63"
    using cap_iff [of "GasLimit header"] by blast
  moreover have "verifyHeader_gas prm header parent =
      Some (InvalidGasLimitCap (GasLimit header) 0x7fffffffffffffff)"
    using True by (simp add: verifyHeader_gas_def)
  ultimately show ?thesis
    by simp
next
  case False
  then have h: "uint (GasLimit header) < 2 ^ 63"
    using cap_iff [of "GasLimit header"] by blast
  from assms(2) have "\<not> GasLimit parent > 0x7fffffffffffffff"
    by (simp add: not_less)
  then have p: "uint (GasLimit parent) < 2 ^ 63"
    using cap_iff [of "GasLimit parent"] by blast
  define diff where "diff = (if sint (GasLimit parent - GasLimit header) < 0
     then (GasLimit parent - GasLimit header) * (- 1) else GasLimit parent - GasLimit header)"
  define limit where "limit = GasLimit parent div GasLimitBoundDivisor prm"
  have d: "uint diff = \<bar>uint (GasLimit header) - uint (GasLimit parent)\<bar>"
    unfolding diff_def using abs_diff_int64 [OF p h] by (simp add: abs_minus_commute)
  have l: "uint limit = uint (GasLimit parent) div uint (GasLimitBoundDivisor prm)"
    unfolding limit_def by (simp add: uint_div)
  have u: "\<not> GasUsed header > GasLimit header"
    using assms(3) by simp
  have eq: "verifyHeader_gas prm header parent =
          (if diff \<ge> limit \<or> GasLimit header < MinGasLimit prm
           then Some (InvalidGasLimit (GasLimit header) (GasLimit parent) limit) else None)"
    unfolding verifyHeader_gas_def Let_def diff_def limit_def
    using False u assms(1) by simp
  have c: "diff \<ge> limit \<longleftrightarrow>
        \<not> \<bar>uint (GasLimit header) - uint (GasLimit parent)\<bar>
                 < uint (GasLimit parent) div uint (GasLimitBoundDivisor prm)"
    by (simp add: word_le_def d l not_less)
  show ?thesis
    unfolding eq using c h by (auto simp: not_less)
qed

lemma verifyHeader_reaches_gas:
  assumes "verifyHeader_before e prm chain header parent uncle = None"
  shows "verifyHeader e prm ethash chain header parent uncle seal =
           (case verifyHeader_gas prm header parent of
              Some err \<Rightarrow> Some err
            | None \<Rightarrow> verifyHeader_after e prm ethash chain header parent uncle seal)"
  using assms by (simp add: verifyHeader_def)






subsection \<open>The gas-limit checks\<close>

text \<open>
  Claim C8, as stated, fails in two ways. The difference of the two gas limits is taken in
  \<open>int64\<close>: for a parent whose gas limit is \<open>2^64 - 1\<close> it wraps, and a header with gas limit
  \<open>5000\<close> passes although the two limits are \<open>2^64 - 5001\<close> apart. And between the two checks
  of the gas limit stands the check of the gas used: a header with gas limit \<open>0\<close> and gas used
  \<open>1\<close> is rejected with the gas-used error, not with a gas-limit error.
\<close>

theorem verifyHeader_gas_limit_counterexample:
  "verifyHeader_gas exampleParams (blankHeader\<lparr>GasLimit := 5000\<rparr>) hugeGasParent = None
   \<and> \<not> \<bar>uint (GasLimit (blankHeader\<lparr>GasLimit := 5000\<rparr>)) - uint (GasLimit hugeGasParent)\<bar>
          < uint (GasLimit hugeGasParent) div uint (GasLimitBoundDivisor exampleParams)
   \<and> verifyHeader_gas exampleParams overusedHeader gasParent = Some (InvalidGasUsed 1 0)
   \<and> \<not> isInvalidGasLimit (InvalidGasUsed 1 0)
   \<and> \<not> MinGasLimit exampleParams \<le> GasLimit overusedHeader"
proof -
  have "verifyHeader_gas exampleParams (blankHeader\<lparr>GasLimit := 5000\<rparr>) hugeGasParent = None"
    by (simp add: verifyHeader_gas_def exampleParams_def blankHeader_def hugeGasParent_def)
  moreover
  have "\<not> \<bar>uint (GasLimit (blankHeader\<lparr>GasLimit := 5000\<rparr>)) - uint (GasLimit hugeGasParent)\<bar>
          < uint (GasLimit hugeGasParent) div uint (GasLimitBoundDivisor exampleParams)"
    by (simp add: exampleParams_def hugeGasParent_def)
  moreover
  have "verifyHeader_gas exampleParams overusedHeader gasParent = Some (InvalidGasUsed 1 0)"
    by (simp add: verifyHeader_gas_def exampleParams_def overusedHeader_def gasParent_def)
  moreover
  have "\<not> MinGasLimit exampleParams \<le> GasLimit overusedHeader"
    by (simp add: exampleParams_def overusedHeader_def)
  ultimately show ?thesis by simp
qed

text \<open>
  Claim C8, amended. For every parent \<open>p\<close> with \<open>p.gasLimit < 2^63\<close> and every header \<open>h\<close>
  with \<open>h.gasUsed \<le> h.gasLimit\<close>, the gas checks of \<open>verifyHeader\<close> accept exactly when
  \<open>|h.gasLimit - p.gasLimit| < p.gasLimit / GasLimitBoundDivisor\<close>,
  \<open>h.gasLimit \<ge> MinGasLimit\<close> and \<open>h.gasLimit < 2^63\<close>, and return an invalid-gas-limit
  error otherwise. A difference of exactly the bound minus one passes and a difference of
  exactly the bound fails.
\<close>

theorem verifyHeader_gas_limit:
  assumes "GasLimitBoundDivisor prm \<noteq> 0"
    and "GasLimit parent \<le> 0x7fffffffffffffff"
    and "GasUsed header \<le> GasLimit header"
  shows "(verifyHeader_gas prm header parent = None \<longleftrightarrow>
            \<bar>uint (GasLimit header) - uint (GasLimit parent)\<bar>
               < uint (GasLimit parent) div uint (GasLimitBoundDivisor prm)
            \<and> MinGasLimit prm \<le> GasLimit header
            \<and> uint (GasLimit header) < 2 ^ 63)
         \<and> (verifyHeader_gas prm header parent = None
              \<or> (\<exists>err. verifyHeader_gas prm header parent = Some err
                         \<and> isInvalidGasLimit err))
         \<and> (\<bar>uint (GasLimit header) - uint (GasLimit parent)\<bar>
               = uint (GasLimit parent) div uint (GasLimitBoundDivisor prm) - 1
             \<and> 1 \<le> uint (GasLimit parent) div uint (GasLimitBoundDivisor prm)
             \<and> MinGasLimit prm \<le> GasLimit header
             \<and> uint (GasLimit header) < 2 ^ 63
             \<longrightarrow> verifyHeader_gas prm header parent = None)
         \<and> (\<bar>uint (GasLimit header) - uint (GasLimit parent)\<bar>
               = uint (GasLimit parent) div uint (GasLimitBoundDivisor prm)
             \<longrightarrow> verifyHeader_gas prm header parent \<noteq> None)"
proof -
  define cond where "cond \<longleftrightarrow>
     \<bar>uint (GasLimit header) - uint (GasLimit parent)\<bar>
        < uint (GasLimit parent) div uint (GasLimitBoundDivisor prm)
     \<and> MinGasLimit prm \<le> GasLimit header
     \<and> uint (GasLimit header) < 2 ^ 63"
  have c: "case verifyHeader_gas prm header parent of
             None \<Rightarrow> cond | Some err \<Rightarrow> isInvalidGasLimit err \<and> \<not> cond"
    unfolding cond_def by (rule verifyHeader_gas_cases [OF assms])
  have iff: "verifyHeader_gas prm header parent = None \<longleftrightarrow> cond"
    using c by (cases "verifyHeader_gas prm header parent") simp_all
  have kind: "verifyHeader_gas prm header parent = None
              \<or> (\<exists>err. verifyHeader_gas prm header parent = Some err \<and> isInvalidGasLimit err)"
    using c by (cases "verifyHeader_gas prm header parent") simp_all
  have below: "verifyHeader_gas prm header parent = None"
    if "\<bar>uint (GasLimit header) - uint (GasLimit parent)\<bar>
               = uint (GasLimit parent) div uint (GasLimitBoundDivisor prm) - 1
             \<and> 1 \<le> uint (GasLimit parent) div uint (GasLimitBoundDivisor prm)
             \<and> MinGasLimit prm \<le> GasLimit header
             \<and> uint (GasLimit header) < 2 ^ 63"
  proof -
    from that have cond unfolding cond_def by simp
    with iff show ?thesis by simp
  qed
  have at: "verifyHeader_gas prm header parent \<noteq> None"
    if "\<bar>uint (GasLimit header) - uint (GasLimit parent)\<bar>
               = uint (GasLimit parent) div uint (GasLimitBoundDivisor prm)"
  proof -
    from that have "\<not> cond" unfolding cond_def by simp
    with iff show ?thesis by simp
  qed
  from iff kind below at show ?thesis
    unfolding cond_def by blast
qed

theorem verifyHeader_gas_limit_witness:
  "GasLimitBoundDivisor exampleParams \<noteq> 0 \<and> GasLimit gasParent \<le> 0x7fffffffffffffff
   \<and> uint (GasLimit gasParent) div uint (GasLimitBoundDivisor exampleParams) = 1000
   \<and> verifyHeader_gas exampleParams (blankHeader\<lparr>GasLimit := 1024999\<rparr>) gasParent = None
   \<and> verifyHeader_gas exampleParams (blankHeader\<lparr>GasLimit := 1025000\<rparr>) gasParent
       \<noteq> None"
proof -
  have d: "GasLimitBoundDivisor exampleParams \<noteq> 0"
    by (simp add: exampleParams_def)
  have p: "GasLimit gasParent \<le> 0x7fffffffffffffff"
    by (simp add: gasParent_def)
  have u: "GasUsed (blankHeader\<lparr>GasLimit := 1024999\<rparr>)
             \<le> GasLimit (blankHeader\<lparr>GasLimit := 1024999\<rparr>)"
    "GasUsed (blankHeader\<lparr>GasLimit := 1025000\<rparr>)
             \<le> GasLimit (blankHeader\<lparr>GasLimit := 1025000\<rparr>)"
    by (simp_all add: blankHeader_def)
  have l: "uint (GasLimit gasParent) div uint (GasLimitBoundDivisor exampleParams) = 1000"
    by (simp add: gasParent_def exampleParams_def)
  have m: "MinGasLimit exampleParams \<le> 1024999"
    by (simp add: exampleParams_def)
  have g: "uint (GasLimit gasParent) = 1024000"
    "uint (GasLimitBoundDivisor exampleParams) = 1024"
    by (simp_all add: gasParent_def exampleParams_def)
  have "verifyHeader_gas exampleParams (blankHeader\<lparr>GasLimit := 1024999\<rparr>) gasParent = None"
    using verifyHeader_gas_limit [OF d p u(1)] by (simp add: m g)
  moreover
  have "verifyHeader_gas exampleParams (blankHeader\<lparr>GasLimit := 1025000\<rparr>) gasParent
          \<noteq> None"
    using verifyHeader_gas_limit [OF d p u(2)] by (simp add: g)
  ultimately show ?thesis
    using d p l by simp
qed

subsection \<open>Batch verification and single verification\<close>




section \<open>Properties of the fuzzy dot product\<close>

subsection \<open>Auxiliary facts\<close>

lemma Min_float_min: "Min_float x y = min x y"
  by (simp add: Min_float_def min_def)

lemma Max_float_max: "Max_float x y = max x y"
  by (simp add: Max_float_def max_def)

lemma Max_insert_insert:
  fixes t m :: real
  assumes "finite S"
  shows "Max (insert t (insert m S)) = Max (insert (max t m) S)"
proof (cases "S = {}")
  case True
  then show ?thesis by simp
next
  case False
  with assms show ?thesis
    by (simp add: max.assoc)
qed

lemma dotFProduct_loop_Max:
  assumes "length a = length b"
  shows "dotFProduct_loop temp a b = Some (Max (insert temp (set (map2 min a b))))"
  using assms
proof (induction a b arbitrary: temp rule: list_induct2)
  case Nil
  then show ?case by simp
next
  case (Cons x xs y ys)
  have "set (map2 min (x # xs) (y # ys)) = insert (min x y) (set (map2 min xs ys))"
    by simp
  then have "Max (insert temp (set (map2 min (x # xs) (y # ys))))
          = Max (insert (max temp (min x y)) (set (map2 min xs ys)))"
    by (simp only: Max_insert_insert [OF List.finite_set])
  with Cons.IH [of "max temp (min x y)"] show ?case
    by (simp only: dotFProduct_loop.simps Min_float_min Max_float_max)
qed

subsection \<open>dotFProduct and the maximum of minima\<close>

text \<open>
  Claim C9, as stated, fails: the running value of \<open>dotFProduct\<close> starts at \<open>0\<close>, so the
  result is never below \<open>0\<close>. For \<open>a = b = [-1]\<close> the maximum of the element-wise minima is
  \<open>-1\<close> and \<open>dotFProduct\<close> returns \<open>0\<close>.
\<close>

theorem dotFProduct_negative_counterexample:
  "dotFProduct [- 1] [- 1] \<noteq> Some (fuzzySup [- 1] [- 1])"
  by (simp add: dotFProduct_def fuzzySup_def Max_float_def Min_float_def)

text \<open>
  Claim C9, amended. For slices \<open>a\<close> and \<open>b\<close> of equal length, \<open>dotFProduct(a, b)\<close> returns
  the maximum of \<open>0\<close> and all \<open>min(a[i], b[i])\<close>; it equals the maximum over all indices of
  \<open>min(a[i], b[i])\<close> whenever some \<open>min(a[i], b[i])\<close> is not negative.
\<close>

theorem dotFProduct_clamped:
  assumes "length a = length b"
  shows "dotFProduct a b = Some (Max (insert 0 (set (map2 min a b))))
         \<and> ((\<exists>i < length a. 0 \<le> min (a ! i) (b ! i)) \<longrightarrow>
              dotFProduct a b = Some (fuzzySup a b))"
proof -
  have eq: "dotFProduct a b = Some (Max (insert 0 (set (map2 min a b))))"
    unfolding dotFProduct_def by (rule dotFProduct_loop_Max [OF assms])
  have "Max (insert 0 (set (map2 min a b))) = fuzzySup a b"
    if "\<exists>i < length a. 0 \<le> min (a ! i) (b ! i)"
  proof -
    from that obtain i where i: "i < length a" "0 \<le> min (a ! i) (b ! i)" by blast
    define S where "S = set (map2 min a b)"
    have "map2 min a b ! i = min (a ! i) (b ! i)" "i < length (map2 min a b)"
      using i(1) assms by simp_all
    then have m: "min (a ! i) (b ! i) \<in> S"
      unfolding S_def by (metis nth_mem)
    have fin: "finite S"
      unfolding S_def by (rule List.finite_set)
    from m have ne: "S \<noteq> {}" by blast
    have "min (a ! i) (b ! i) \<le> Max S"
      using fin m by (rule Max_ge)
    with i(2) have "0 \<le> Max S" by (rule order_trans)
    then have "Max (insert 0 S) = Max S"
      using fin ne by (simp add: max_def)
    then show ?thesis
      by (simp add: fuzzySup_def S_def)
  qed
  with eq show ?thesis by simp
qed

theorem dotFProduct_clamped_witness:
  "length [0.2, 0.9 :: real] = length [0.5, 0.4 :: real]
   \<and> (\<exists>i < length [0.2, 0.9 :: real]. 0 \<le> min ([0.2, 0.9] ! i) ([0.5, 0.4 :: real] ! i))
   \<and> dotFProduct [0.2, 0.9] [0.5, 0.4] = Some 0.4
   \<and> fuzzySup [0.2, 0.9] [0.5, 0.4] = 0.4"
proof -
  have l: "length [0.2, 0.9 :: real] = length [0.5, 0.4 :: real]" by simp
  have e: "\<exists>i < length [0.2, 0.9 :: real]. 0 \<le> min ([0.2, 0.9] ! i) ([0.5, 0.4 :: real] ! i)"
    by (rule exI [of _ 0]) simp
  have f: "fuzzySup [0.2, 0.9] [0.5, 0.4] = 0.4"
    by (simp add: fuzzySup_def)
  from dotFProduct_clamped [OF l] e
  have "dotFProduct [0.2, 0.9] [0.5, 0.4] = Some (fuzzySup [0.2, 0.9] [0.5, 0.4])"
    by blast
  then show ?thesis
    using l e f by simp
qed

end
